theory Spec2Isabelle
  imports Main
begin

section \<open>Data model\<close>

text \<open>
  The plugin exposes the SAFE application API (\<^verbatim>\<open>initialise\<close>, \<^verbatim>\<open>connect\<close>,
  \<^verbatim>\<open>authorise\<close>, ...) and the public signing key API (\<^verbatim>\<open>getRaw\<close>, \<^verbatim>\<open>verify\<close>,
  \<^verbatim>\<open>free\<close>). Every operation takes an opaque token, looks it up with \<^verbatim>\<open>getObj\<close>
  and chains native calls on the object found. Promises are modelled by their final
  state, the module-level handle table and the native objects by an explicit state.
\<close>

type_synonym handle = nat
type_synonym addr = nat
type_synonym authUri = string
type_synonym authReq = string
type_synonym reason = string
type_synonym bytes = "nat list"
type_synonym permissions = "(string \<times> string list) list"

record options =
  own_container :: bool

text \<open>
  The errors a caller can observe. \<open>UnknownHandle\<close> is the rejection of \<^verbatim>\<open>getObj\<close> (the
  capability adapters call the same registry miss \<^verbatim>\<open>InvalidHandle\<close>); \<open>OperationFailed r\<close>
  is the rejection \<open>r\<close> of a native call, which the promise chains of the source pass on
  unchanged; \<open>AuthorizationDenied\<close> is the \<^verbatim>\<open>Error\<close> built in the dispatch callback;
  \<open>DispatchFailed r\<close> is the error \<open>r\<close> of a dispatch that could not be made;
  \<open>TypeError\<close> and \<open>ReferenceError\<close> are the JavaScript runtime errors. \<open>InvalidSession\<close>
  is the name for a session that is not ready for an operation; neither module builds it.
\<close>

datatype error =
    UnknownHandle
  | InvalidSession
  | AuthorizationDenied
  | DispatchFailed reason
  | OperationFailed reason
  | TypeError
  | ReferenceError

abbreviation (input) InvalidHandle :: error where
  "InvalidHandle \<equiv> UnknownHandle"

text \<open>The final state of a promise: never settled, rejected or resolved.\<close>

datatype 'a promise = Pending | Rejected error | Resolved 'a

text \<open>
  An \<^verbatim>\<open>AppInfo\<close> is a JavaScript object supplied by the caller: a finite map from field
  names to values.
\<close>

datatype jsval = Null | Str string

type_synonym appInfo = "string \<rightharpoonup> jsval"

text \<open>
  The ambient \<^verbatim>\<open>this\<close> that \<^verbatim>\<open>initialise\<close> reads (an arrow function takes it from the
  enclosing scope): absent, or an object that may hold a sender.
\<close>

datatype sender = Sender (getURL: string)

record this_ctx =
  sender :: "sender option"

datatype connectionState = Disconnected | Connected

datatype authState = Unauthenticated | Authenticated

text \<open>
  Modelled from the spec: the native \<^verbatim>\<open>SAFEApp\<close> object of the \<^verbatim>\<open>safe-app\<close> library, which
  is not part of the sources. It is the Session of the data model: the application's
  identity, a connection state and an authorisation state.
\<close>

record safeApp =
  info :: appInfo
  conn :: connectionState
  auth :: authState

text \<open>
  The native object a handle stands for: none (\<^verbatim>\<open>null\<close>, for a session handle), a public
  signing key or a mutable data object.
\<close>

datatype netObj = NoNetObj | PubSignKey nat | MutableData nat

record obj =
  app :: addr
  netObj :: netObj

text \<open>What leaves the process: requests handed to the authenticator and native key calls.\<close>

datatype event =
    SendAuthReq authReq
  | KeyGetRaw nat
  | KeyVerify nat bytes

text \<open>
  The state: the handle table of \<^verbatim>\<open>helpers\<close> and its counter, the native application
  objects by address (the handle of a session and the handles of its containers share one
  application object), and the trace of events.
\<close>

record state =
  handles :: "handle \<rightharpoonup> obj"
  next_handle :: nat
  apps :: "addr \<Rightarrow> safeApp"
  next_addr :: nat
  log :: "event list"

text \<open>
  Modelled from the spec: the reply of the module \<^verbatim>\<open>ipc\<close>, which is not part of the
  sources. The authenticator invokes the callback of a dispatched request at most once,
  with an error and no response or with no error and the granted URI.
\<close>

datatype cb_args = CbError reason | CbGranted authUri

text \<open>
  Modelled from the spec: what a call of \<^verbatim>\<open>ipc.sendAuthReq\<close> does, the module \<^verbatim>\<open>ipc\<close> not
  being part of the sources. Either the dispatch fails (the call throws, or returns a
  rejected promise, before any callback), or the call returns and the callback is later
  invoked once (\<open>Some\<close>) or never (\<open>None\<close>). A failure after the callback has fired is
  the case \<open>Returns\<close>: the promise is settled by then.
\<close>

datatype dispatch = Throws reason | Returns "cb_args option"

text \<open>
  The collaborators whose code is outside the sources, taken as parameters: the native
  calls of \<^verbatim>\<open>safe-app\<close> (each resolves or rejects with a reason), and what the
  authenticator channel does with a request.
\<close>

record env =
  auth_genAuthUri :: "safeApp \<Rightarrow> permissions \<Rightarrow> options \<Rightarrow> reason + authReq"
  auth_genContainerAuthUri :: "safeApp \<Rightarrow> permissions \<Rightarrow> reason + authReq"
  auth_loginFromURI :: "safeApp \<Rightarrow> authUri \<Rightarrow> reason + unit"
  app_webFetch :: "safeApp \<Rightarrow> string \<Rightarrow> reason + nat"
  auth_canAccessContainer :: "safeApp \<Rightarrow> string \<Rightarrow> string list \<Rightarrow> reason + bool"
  auth_refreshContainersPermissions :: "safeApp \<Rightarrow> reason + unit"
  auth_getContainersNames :: "safeApp \<Rightarrow> reason + string list"
  auth_getHomeContainer :: "safeApp \<Rightarrow> reason + nat"
  auth_getContainer :: "safeApp \<Rightarrow> string \<Rightarrow> reason + nat"
  netObj_getRaw :: "nat \<Rightarrow> reason + bytes"
  netObj_verify :: "nat \<Rightarrow> bytes \<Rightarrow> reason + bytes"
  ipc_sendAuthReq :: "authReq \<Rightarrow> dispatch"

section \<open>The handle registry\<close>

text \<open>
  Modelled from the spec: \<^verbatim>\<open>genHandle\<close> of the module \<^verbatim>\<open>helpers\<close>, which is not part of
  the sources. It creates a fresh entry for the application and the native object, under
  a token unique for the lifetime of the process (a counter), and returns the token.
\<close>

definition genHandle :: "state \<Rightarrow> addr \<Rightarrow> netObj \<Rightarrow> state \<times> handle" where
  "genHandle s a n =
     (s\<lparr>handles := (handles s)(next_handle s \<mapsto> \<lparr>app = a, netObj = n\<rparr>),
        next_handle := Suc (next_handle s)\<rparr>,
      next_handle s)"

text \<open>
  Modelled from the spec: \<^verbatim>\<open>getObj\<close> of the module \<^verbatim>\<open>helpers\<close>, which is not part of the
  sources. It resolves with the entry of the token and fails with \<open>UnknownHandle\<close> on a
  token never allocated or since freed.
\<close>

definition getObj :: "state \<Rightarrow> handle \<Rightarrow> error + obj" where
  "getObj s h = (case handles s h of None \<Rightarrow> Inl UnknownHandle | Some ob \<Rightarrow> Inr ob)"

text \<open>
  Modelled from the spec: \<^verbatim>\<open>freeObj\<close> of the module \<^verbatim>\<open>helpers\<close>, which is not part of the
  sources. It removes the entry of the token at once. The spec leaves open whether an
  unknown token is ignored or reported; here it is ignored.
\<close>

definition freeObj :: "state \<Rightarrow> handle \<Rightarrow> state" where
  "freeObj s h = s\<lparr>handles := (handles s)(h := None)\<rparr>"

text \<open>Every token in the table was issued by the counter.\<close>

definition wf_registry :: "state \<Rightarrow> bool" where
  "wf_registry s \<longleftrightarrow> (\<forall>h. handles s h \<noteq> None \<longrightarrow> h < next_handle s)"

section \<open>The native session\<close>

text \<open>
  Modelled from the spec: \<^verbatim>\<open>safeApp.initializeApp\<close> of the \<^verbatim>\<open>safe-app\<close> library, which is
  not part of the sources. It creates a session for the application without touching the
  network: disconnected and not authenticated.
\<close>

definition initializeApp :: "appInfo \<Rightarrow> safeApp" where
  "initializeApp appInfo = \<lparr>info = appInfo, conn = Disconnected, auth = Unauthenticated\<rparr>"

text \<open>
  Modelled from the spec: \<^verbatim>\<open>auth.connectUnregistered\<close> of the \<^verbatim>\<open>safe-app\<close> library, which is
  not part of the sources. It opens a read-only network session; the authorisation state
  stays as it is.
\<close>

definition connectUnregistered :: "safeApp \<Rightarrow> safeApp" where
  "connectUnregistered a = a\<lparr>conn := Connected\<rparr>"

text \<open>
  A native call of the library resolves, or rejects with a reason; the promise chains of
  the source pass the rejection on unchanged.
\<close>

definition native :: "reason + 'a \<Rightarrow> error + 'a" where
  "native r = (case r of Inl e \<Rightarrow> Inl (OperationFailed e) | Inr v \<Rightarrow> Inr v)"

text \<open>
  Modelled from the spec: \<^verbatim>\<open>auth.loginFromURI\<close> of the \<^verbatim>\<open>safe-app\<close> library, which is not
  part of the sources. The library decides whether the URI can be redeemed (it was
  granted or persisted, and is still valid); if so the session is left connected and
  registered, otherwise the call rejects and the session is as before.
\<close>

definition loginFromURI :: "env \<Rightarrow> safeApp \<Rightarrow> authUri \<Rightarrow> error + safeApp" where
  "loginFromURI env a authUri =
     (case native (auth_loginFromURI env a authUri) of
        Inl e \<Rightarrow> Inl e
      | Inr _ \<Rightarrow> Inr (a\<lparr>conn := Connected, auth := Authenticated\<rparr>))"

text \<open>
  Modelled from the spec: the property \<^verbatim>\<open>auth.registered\<close> of the \<^verbatim>\<open>safe-app\<close> library,
  which is not part of the sources: whether the session is authenticated. The property
  \<^verbatim>\<open>networkState\<close> is the field \<open>conn\<close>.
\<close>

definition registered :: "safeApp \<Rightarrow> bool" where
  "registered a \<longleftrightarrow> auth a = Authenticated"

text \<open>The state of a process that has made no call yet.\<close>

definition init_state :: state where
  "init_state =
     \<lparr>handles = Map.empty, next_handle = 0, apps = (\<lambda>_. initializeApp Map.empty),
      next_addr = 0, log = []\<rparr>"

section \<open>The application API\<close>

text \<open>A promise chain ends rejected with the error or resolved with the value.\<close>

definition settle :: "error + 'a \<Rightarrow> 'a promise" where
  "settle r = (case r of Inl e \<Rightarrow> Rejected e | Inr v \<Rightarrow> Resolved v)"

text \<open>
  \<^verbatim>\<open>initialise\<close> overwrites \<^verbatim>\<open>appInfo.scope\<close> (with the sender's URL when \<^verbatim>\<open>this\<close> and
  \<^verbatim>\<open>this.sender\<close> are set, with \<^verbatim>\<open>null\<close> otherwise), creates the application object and
  registers it with a \<^verbatim>\<open>null\<close> native object. The caller's object is returned as
  mutated, with the new state and the promise of the token.
\<close>

definition initialise ::
  "this_ctx option \<Rightarrow> state \<Rightarrow> appInfo \<Rightarrow> appInfo \<times> state \<times> handle promise" where
  "initialise this s appInfo =
     (let appInfo' =
            (case this of
               None \<Rightarrow> appInfo(''scope'' \<mapsto> Null)
             | Some t \<Rightarrow>
                 (case sender t of
                    None \<Rightarrow> appInfo(''scope'' \<mapsto> Null)
                  | Some sd \<Rightarrow> appInfo(''scope'' \<mapsto> Str (getURL sd))));
          a = next_addr s;
          s1 = s\<lparr>apps := (apps s)(a := initializeApp appInfo'), next_addr := Suc a\<rparr>;
          r = genHandle s1 a NoNetObj
      in (appInfo', fst r, Resolved (snd r)))"

definition connect :: "state \<Rightarrow> handle \<Rightarrow> state \<times> handle promise" where
  "connect s appToken =
     (case getObj s appToken of
        Inl e \<Rightarrow> (s, Rejected e)
      | Inr ob \<Rightarrow>
          (s\<lparr>apps := (apps s)(app ob := connectUnregistered (apps s (app ob)))\<rparr>,
           Resolved appToken))"

text \<open>
  The callback handed to \<^verbatim>\<open>ipc.sendAuthReq\<close>: an error rejects the promise with a new
  \<^verbatim>\<open>Error\<close> (the authenticator's error is not kept), otherwise the response resolves it.
\<close>

fun auth_callback :: "cb_args \<Rightarrow> authUri promise" where
  "auth_callback (CbError err) = Rejected AuthorizationDenied"
| "auth_callback (CbGranted res) = Resolved res"

text \<open>
  \<^verbatim>\<open>authorise\<close>: the final \<^verbatim>\<open>.catch(reject)\<close> rejects the promise when \<^verbatim>\<open>getObj\<close> fails,
  when the request cannot be built and when \<^verbatim>\<open>ipc.sendAuthReq\<close> itself fails; once the
  request is with the channel, only the callback settles the promise.
\<close>

definition authorise ::
  "env \<Rightarrow> state \<Rightarrow> handle \<Rightarrow> permissions \<Rightarrow> options \<Rightarrow> state \<times> authUri promise" where
  "authorise env s appToken permissions opts =
     (case getObj s appToken of
        Inl e \<Rightarrow> (s, Rejected e)
      | Inr ob \<Rightarrow>
          (case native (auth_genAuthUri env (apps s (app ob)) permissions opts) of
             Inl e \<Rightarrow> (s, Rejected e)
           | Inr authReq \<Rightarrow>
               (s\<lparr>log := log s @ [SendAuthReq authReq]\<rparr>,
                case ipc_sendAuthReq env authReq of
                  Throws r \<Rightarrow> Rejected (DispatchFailed r)
                | Returns None \<Rightarrow> Pending
                | Returns (Some args) \<Rightarrow> auth_callback args)))"

definition connectAuthorised ::
  "env \<Rightarrow> state \<Rightarrow> handle \<Rightarrow> authUri \<Rightarrow> state \<times> handle promise" where
  "connectAuthorised env s appToken authUri =
     (case getObj s appToken of
        Inl e \<Rightarrow> (s, Rejected e)
      | Inr ob \<Rightarrow>
          (case loginFromURI env (apps s (app ob)) authUri of
             Inl e \<Rightarrow> (s, Rejected e)
           | Inr a \<Rightarrow> (s\<lparr>apps := (apps s)(app ob := a)\<rparr>, Resolved appToken)))"

definition authoriseContainer ::
  "env \<Rightarrow> state \<Rightarrow> handle \<Rightarrow> permissions \<Rightarrow> state \<times> authUri promise" where
  "authoriseContainer env s appToken permissions =
     (case getObj s appToken of
        Inl e \<Rightarrow> (s, Rejected e)
      | Inr ob \<Rightarrow>
          (case native (auth_genContainerAuthUri env (apps s (app ob)) permissions) of
             Inl e \<Rightarrow> (s, Rejected e)
           | Inr authReq \<Rightarrow>
               (s\<lparr>log := log s @ [SendAuthReq authReq]\<rparr>,
                case ipc_sendAuthReq env authReq of
                  Throws r \<Rightarrow> Rejected (DispatchFailed r)
                | Returns None \<Rightarrow> Pending
                | Returns (Some args) \<Rightarrow> auth_callback args)))"

text \<open>
  \<^verbatim>\<open>webFetch\<close>: once \<^verbatim>\<open>obj.app.webFetch(url)\<close> has resolved, the next step evaluates
  \<^verbatim>\<open>app.immutableData\<close>, and no \<^verbatim>\<open>app\<close> is bound in the module or in the callback (the
  application is \<^verbatim>\<open>obj.app\<close>): the step throws a \<^verbatim>\<open>ReferenceError\<close>, the chain rejects
  and \<^verbatim>\<open>i.read()\<close> is never reached.
\<close>

definition webFetch :: "env \<Rightarrow> state \<Rightarrow> handle \<Rightarrow> string \<Rightarrow> state \<times> bytes promise" where
  "webFetch env s appToken url =
     (case getObj s appToken of
        Inl e \<Rightarrow> (s, Rejected e)
      | Inr ob \<Rightarrow>
          (case native (app_webFetch env (apps s (app ob)) url) of
             Inl e \<Rightarrow> (s, Rejected e)
           | Inr f \<Rightarrow> (s, Rejected ReferenceError)))"

definition isRegistered :: "state \<Rightarrow> handle \<Rightarrow> state \<times> bool promise" where
  "isRegistered s appToken =
     (case getObj s appToken of
        Inl e \<Rightarrow> (s, Rejected e)
      | Inr ob \<Rightarrow> (s, Resolved (registered (apps s (app ob)))))"

definition networkState :: "state \<Rightarrow> handle \<Rightarrow> state \<times> connectionState promise" where
  "networkState s appToken =
     (case getObj s appToken of
        Inl e \<Rightarrow> (s, Rejected e)
      | Inr ob \<Rightarrow> (s, Resolved (conn (apps s (app ob)))))"

definition canAccessContainer ::
  "env \<Rightarrow> state \<Rightarrow> handle \<Rightarrow> string \<Rightarrow> string list \<Rightarrow> state \<times> bool promise" where
  "canAccessContainer env s appToken name permissions =
     (case getObj s appToken of
        Inl e \<Rightarrow> (s, Rejected e)
      | Inr ob \<Rightarrow>
          (s, settle (native
                (auth_canAccessContainer env (apps s (app ob)) name permissions))))"

definition refreshContainersPermissions ::
  "env \<Rightarrow> state \<Rightarrow> handle \<Rightarrow> state \<times> handle promise" where
  "refreshContainersPermissions env s appToken =
     (case getObj s appToken of
        Inl e \<Rightarrow> (s, Rejected e)
      | Inr ob \<Rightarrow>
          (case native (auth_refreshContainersPermissions env (apps s (app ob))) of
             Inl e \<Rightarrow> (s, Rejected e)
           | Inr _ \<Rightarrow> (s, Resolved appToken)))"

definition getContainersNames ::
  "env \<Rightarrow> state \<Rightarrow> handle \<Rightarrow> state \<times> string list promise" where
  "getContainersNames env s appToken =
     (case getObj s appToken of
        Inl e \<Rightarrow> (s, Rejected e)
      | Inr ob \<Rightarrow>
          (s, settle (native (auth_getContainersNames env (apps s (app ob))))))"

definition getHomeContainer :: "env \<Rightarrow> state \<Rightarrow> handle \<Rightarrow> state \<times> handle promise" where
  "getHomeContainer env s appToken =
     (case getObj s appToken of
        Inl e \<Rightarrow> (s, Rejected e)
      | Inr ob \<Rightarrow>
          (case native (auth_getHomeContainer env (apps s (app ob))) of
             Inl e \<Rightarrow> (s, Rejected e)
           | Inr md \<Rightarrow>
               (let r = genHandle s (app ob) (MutableData md)
                in (fst r, Resolved (snd r)))))"

definition getContainer :: "env \<Rightarrow> state \<Rightarrow> handle \<Rightarrow> string \<Rightarrow> state \<times> handle promise" where
  "getContainer env s appToken name =
     (case getObj s appToken of
        Inl e \<Rightarrow> (s, Rejected e)
      | Inr ob \<Rightarrow>
          (case native (auth_getContainer env (apps s (app ob)) name) of
             Inl e \<Rightarrow> (s, Rejected e)
           | Inr md \<Rightarrow>
               (let r = genHandle s (app ob) (MutableData md)
                in (fst r, Resolved (snd r)))))"

text \<open>\<^verbatim>\<open>free\<close> is synchronous: it hands the token to \<^verbatim>\<open>freeObj\<close> and returns nothing.\<close>

definition free :: "state \<Rightarrow> handle \<Rightarrow> state" where
  "free s appToken = freeObj s appToken"

section \<open>The public signing key API\<close>

text \<open>
  \<^verbatim>\<open>getRaw\<close> and \<^verbatim>\<open>verify\<close> resolve the handle and call the method of \<^verbatim>\<open>obj.netObj\<close>.
  A handle whose native object is \<^verbatim>\<open>null\<close> or of another kind has no such method: the
  call throws a \<^verbatim>\<open>TypeError\<close> inside the chain.
\<close>

definition getRaw :: "env \<Rightarrow> state \<Rightarrow> handle \<Rightarrow> state \<times> bytes promise" where
  "getRaw env s pubSignKeyHandle =
     (case getObj s pubSignKeyHandle of
        Inl e \<Rightarrow> (s, Rejected e)
      | Inr ob \<Rightarrow>
          (case netObj ob of
             PubSignKey k \<Rightarrow>
               (s\<lparr>log := log s @ [KeyGetRaw k]\<rparr>, settle (native (netObj_getRaw env k)))
           | _ \<Rightarrow> (s, Rejected TypeError)))"

definition verify :: "env \<Rightarrow> state \<Rightarrow> handle \<Rightarrow> bytes \<Rightarrow> state \<times> bytes promise" where
  "verify env s pubSignKeyHandle data =
     (case getObj s pubSignKeyHandle of
        Inl e \<Rightarrow> (s, Rejected e)
      | Inr ob \<Rightarrow>
          (case netObj ob of
             PubSignKey k \<Rightarrow>
               (s\<lparr>log := log s @ [KeyVerify k data]\<rparr>,
                settle (native (netObj_verify env k data)))
           | _ \<Rightarrow> (s, Rejected TypeError)))"

definition pubSignKey_free :: "state \<Rightarrow> handle \<Rightarrow> state" where
  "pubSignKey_free s pubSignKeyHandle = freeObj s pubSignKeyHandle"

section \<open>Sequences of calls\<close>

text \<open>The calls of both modules, with their arguments, and the values they resolve with.\<close>

datatype call =
    Initialise "this_ctx option" appInfo
  | Connect handle
  | Authorise handle permissions options
  | ConnectAuthorised handle authUri
  | AuthoriseContainer handle permissions
  | WebFetch handle string
  | IsRegistered handle
  | NetworkState handle
  | CanAccessContainer handle string "string list"
  | RefreshContainersPermissions handle
  | GetContainersNames handle
  | GetHomeContainer handle
  | GetContainer handle string
  | Free handle
  | GetRaw handle
  | Verify handle bytes
  | PubSignKeyFree handle

datatype val =
    VHandle handle
  | VAuthUri authUri
  | VBytes bytes
  | VBool bool
  | VState connectionState
  | VNames "string list"
  | VVoid

fun as_val :: "('a \<Rightarrow> val) \<Rightarrow> state \<times> 'a promise \<Rightarrow> state \<times> val promise" where
  "as_val f (s, Pending) = (s, Pending)"
| "as_val f (s, Rejected e) = (s, Rejected e)"
| "as_val f (s, Resolved v) = (s, Resolved (f v))"

fun run_call :: "env \<Rightarrow> state \<Rightarrow> call \<Rightarrow> state \<times> val promise" where
  "run_call env s (Initialise this appInfo) = as_val VHandle (snd (initialise this s appInfo))"
| "run_call env s (Connect h) = as_val VHandle (connect s h)"
| "run_call env s (Authorise h p opts) = as_val VAuthUri (authorise env s h p opts)"
| "run_call env s (ConnectAuthorised h u) = as_val VHandle (connectAuthorised env s h u)"
| "run_call env s (AuthoriseContainer h p) = as_val VAuthUri (authoriseContainer env s h p)"
| "run_call env s (WebFetch h url) = as_val VBytes (webFetch env s h url)"
| "run_call env s (IsRegistered h) = as_val VBool (isRegistered s h)"
| "run_call env s (NetworkState h) = as_val VState (networkState s h)"
| "run_call env s (CanAccessContainer h n p) = as_val VBool (canAccessContainer env s h n p)"
| "run_call env s (RefreshContainersPermissions h) =
     as_val VHandle (refreshContainersPermissions env s h)"
| "run_call env s (GetContainersNames h) = as_val VNames (getContainersNames env s h)"
| "run_call env s (GetHomeContainer h) = as_val VHandle (getHomeContainer env s h)"
| "run_call env s (GetContainer h n) = as_val VHandle (getContainer env s h n)"
| "run_call env s (Free h) = (free s h, Resolved VVoid)"
| "run_call env s (GetRaw h) = as_val VBytes (getRaw env s h)"
| "run_call env s (Verify h d) = as_val VBytes (verify env s h d)"
| "run_call env s (PubSignKeyFree h) = (pubSignKey_free s h, Resolved VVoid)"

fun run_calls :: "env \<Rightarrow> state \<Rightarrow> call list \<Rightarrow> state" where
  "run_calls env s [] = s"
| "run_calls env s (c # cs) = run_calls env (fst (run_call env s c)) cs"

text \<open>The handle a call resolves in the registry, if it resolves one.\<close>

fun resolved_handle :: "call \<Rightarrow> handle option" where
  "resolved_handle (Initialise this appInfo) = None"
| "resolved_handle (Connect h) = Some h"
| "resolved_handle (Authorise h p opts) = Some h"
| "resolved_handle (ConnectAuthorised h u) = Some h"
| "resolved_handle (AuthoriseContainer h p) = Some h"
| "resolved_handle (WebFetch h url) = Some h"
| "resolved_handle (IsRegistered h) = Some h"
| "resolved_handle (NetworkState h) = Some h"
| "resolved_handle (CanAccessContainer h n p) = Some h"
| "resolved_handle (RefreshContainersPermissions h) = Some h"
| "resolved_handle (GetContainersNames h) = Some h"
| "resolved_handle (GetHomeContainer h) = Some h"
| "resolved_handle (GetContainer h n) = Some h"
| "resolved_handle (Free h) = None"
| "resolved_handle (GetRaw h) = Some h"
| "resolved_handle (Verify h d) = Some h"
| "resolved_handle (PubSignKeyFree h) = None"

section \<open>Example environments and states\<close>

text \<open>
  An environment in which the authenticator grants every request with one URI, the
  library redeems that URI and no other, and the other native calls resolve, except that
  an empty signed message does not verify.
\<close>

definition env_grant :: env where
  "env_grant =
     \<lparr>auth_genAuthUri = (\<lambda>a p opts. Inr ''safe-auth://request''),
      auth_genContainerAuthUri = (\<lambda>a p. Inr ''safe-auth://container-request''),
      auth_loginFromURI =
        (\<lambda>a u. if u = ''safe-auth://granted'' then Inr () else Inl ''invalid URI''),
      app_webFetch = (\<lambda>a url. Inr 7),
      auth_canAccessContainer = (\<lambda>a n p. Inr True),
      auth_refreshContainersPermissions = (\<lambda>a. Inr ()),
      auth_getContainersNames = (\<lambda>a. Inr [''_public'']),
      auth_getHomeContainer = (\<lambda>a. Inr 1),
      auth_getContainer = (\<lambda>a n. Inr 2),
      netObj_getRaw = (\<lambda>k. Inr [1, 2, 3]),
      netObj_verify = (\<lambda>k d. if d = [] then Inl ''invalid signature'' else Inr d),
      ipc_sendAuthReq = (\<lambda>r. Returns (Some (CbGranted ''safe-auth://granted'')))\<rparr>"

text \<open>The authenticator answers every request with an error.\<close>

definition env_deny :: env where
  "env_deny =
     env_grant\<lparr>ipc_sendAuthReq := \<lambda>r. Returns (Some (CbError ''denied by the user''))\<rparr>"

text \<open>The authenticator never answers.\<close>

definition env_silent :: env where
  "env_silent = env_grant\<lparr>ipc_sendAuthReq := \<lambda>r. Returns None\<rparr>"

text \<open>The authenticator cannot be reached: the dispatch itself fails.\<close>

definition env_unreachable :: env where
  "env_unreachable = env_grant\<lparr>ipc_sendAuthReq := \<lambda>r. Throws ''no authenticator''\<rparr>"

text \<open>The native request builder rejects the permissions.\<close>

definition env_invalid :: env where
  "env_invalid = env_grant\<lparr>auth_genAuthUri := \<lambda>a p opts. Inl ''invalid permissions''\<rparr>"

definition example_appInfo :: appInfo where
  "example_appInfo =
     [''id'' \<mapsto> Str ''a.b'', ''name'' \<mapsto> Str ''App'', ''vendor'' \<mapsto> Str ''V'']"

text \<open>One session, created and not connected, under the token \<open>0\<close>.\<close>

definition session_state :: state where
  "session_state = fst (snd (initialise None init_state example_appInfo))"

text \<open>The same with a public signing key of that session under the token \<open>1\<close>.\<close>

definition key_state :: state where
  "key_state = fst (genHandle session_state 0 (PubSignKey 5))"

section \<open>Basic facts\<close>

lemmas api_defs =
  initialise_def connect_def authorise_def connectAuthorised_def authoriseContainer_def
  webFetch_def isRegistered_def networkState_def canAccessContainer_def
  refreshContainersPermissions_def getContainersNames_def getHomeContainer_def
  getContainer_def free_def getRaw_def verify_def pubSignKey_free_def

lemma as_val_fst [simp]: "fst (as_val f r) = fst r"
  by (cases "(f, r)" rule: as_val.cases) simp_all

lemma as_val_rejected [simp]: "snd (as_val f r) = Rejected e \<longleftrightarrow> snd r = Rejected e"
  by (cases "(f, r)" rule: as_val.cases) simp_all

lemma wf_init_state: "wf_registry init_state"
  by (simp add: wf_registry_def init_state_def)

lemma session_state_simps:
  "handles session_state = [0 \<mapsto> \<lparr>app = 0, netObj = NoNetObj\<rparr>]"
  "next_handle session_state = 1"
  "apps session_state 0 =
     \<lparr>info = example_appInfo(''scope'' \<mapsto> Null), conn = Disconnected, auth = Unauthenticated\<rparr>"
  "log session_state = []"
  by (simp_all add: session_state_def initialise_def init_state_def genHandle_def Let_def
        initializeApp_def)

lemma wf_session_state: "wf_registry session_state"
  by (simp add: wf_registry_def session_state_simps)

lemma key_state_simps:
  "handles key_state =
     [0 \<mapsto> \<lparr>app = 0, netObj = NoNetObj\<rparr>, 1 \<mapsto> \<lparr>app = 0, netObj = PubSignKey 5\<rparr>]"
  "log key_state = []"
  by (simp_all add: key_state_def genHandle_def session_state_simps)

section \<open>Freed handles\<close>

text \<open>A call that resolves a token absent from the table fails with \<open>UnknownHandle\<close>.\<close>

lemma run_call_unknown:
  assumes "handles s H = None" and "resolved_handle c = Some H"
  shows "snd (run_call env s c) = Rejected UnknownHandle"
  using assms by (cases c) (simp_all add: api_defs getObj_def)

text \<open>
  A call adds entries only under the counter's next token, so a token below the counter
  that is absent stays absent; the counter never decreases and the invariant is kept.
\<close>

lemma run_call_handles:
  assumes "handles s h = None" and "h < next_handle s"
  shows "handles (fst (run_call env s c)) h = None"
  using assms
  by (cases c)
     (auto simp: api_defs getObj_def genHandle_def freeObj_def Let_def
           split: sum.splits option.splits netObj.splits if_splits)

lemma run_call_next_handle: "next_handle s \<le> next_handle (fst (run_call env s c))"
  by (cases c)
     (auto simp: api_defs getObj_def genHandle_def freeObj_def Let_def
           split: sum.splits option.splits netObj.splits if_splits)

lemma run_call_wf:
  assumes "wf_registry s"
  shows "wf_registry (fst (run_call env s c))"
  using assms unfolding wf_registry_def
  by (cases c)
     (auto simp: api_defs getObj_def genHandle_def freeObj_def Let_def less_Suc_eq
           split: sum.splits option.splits netObj.splits if_splits)

lemma run_calls_freed:
  assumes "wf_registry s" and "H < next_handle s" and "handles s H = None"
  shows "handles (run_calls env s cs) H = None"
  using assms
proof (induction cs arbitrary: s)
  case Nil
  then show ?case by simp
next
  case (Cons c cs)
  let ?t = "fst (run_call env s c)"
  have "wf_registry ?t" using Cons.prems(1) by (rule run_call_wf)
  moreover have "H < next_handle ?t"
    using Cons.prems(2) run_call_next_handle [of s env c] by simp
  moreover have "handles ?t H = None"
    using Cons.prems(3,2) by (rule run_call_handles)
  ultimately show ?case using Cons.IH by simp
qed

text \<open>
  Claim C1. For every handle \<open>H\<close> that has been issued, after \<open>free H\<close> (of either module)
  and any further calls, the entry of \<open>H\<close> is absent, \<open>getObj\<close> fails on \<open>H\<close> with
  \<open>UnknownHandle\<close>, and every operation that resolves \<open>H\<close> (\<open>connect\<close>, \<open>authorise\<close>,
  \<open>connectAuthorised\<close>, \<open>isRegistered\<close>, \<open>getContainer\<close>, \<open>getRaw\<close>, \<open>verify\<close> and the
  others) is rejected with \<open>UnknownHandle\<close>.
\<close>

theorem freed_handle_never_resolves:
  assumes "wf_registry s" and "H < next_handle s"
    and "s' = free s H \<or> s' = pubSignKey_free s H"
    and "resolved_handle c = Some H"
  shows "handles (run_calls env s' cs) H = None
       \<and> getObj (run_calls env s' cs) H = Inl UnknownHandle
       \<and> snd (run_call env (run_calls env s' cs) c) = Rejected UnknownHandle"
proof -
  have s': "s' = freeObj s H" using assms(3) by (auto simp: free_def pubSignKey_free_def)
  have "wf_registry s'" using assms(1) by (auto simp: s' wf_registry_def freeObj_def)
  moreover have "H < next_handle s'" using assms(2) by (simp add: s' freeObj_def)
  moreover have "handles s' H = None" by (simp add: s' freeObj_def)
  ultimately have gone: "handles (run_calls env s' cs) H = None"
    by (rule run_calls_freed)
  from gone have "getObj (run_calls env s' cs) H = Inl UnknownHandle"
    by (simp add: getObj_def)
  moreover from gone assms(4)
  have "snd (run_call env (run_calls env s' cs) c) = Rejected UnknownHandle"
    by (rule run_call_unknown)
  ultimately show ?thesis using gone by simp
qed

theorem freed_handle_never_resolves_witness:
  "wf_registry session_state
   \<and> 0 < next_handle session_state
   \<and> resolved_handle (IsRegistered 0) = Some 0
   \<and> getObj (run_calls env_grant (free session_state 0)
        [Initialise None example_appInfo, Connect 1]) 0 = Inl UnknownHandle
   \<and> snd (run_call env_grant (run_calls env_grant (free session_state 0)
        [Initialise None example_appInfo, Connect 1]) (IsRegistered 0)) = Rejected UnknownHandle"
proof -
  have n: "0 < next_handle session_state"
    by (simp add: session_state_simps)
  have f: "free session_state 0 = free session_state 0 \<or>
           free session_state 0 = pubSignKey_free session_state 0"
    by simp
  have r: "resolved_handle (IsRegistered 0) = Some 0"
    by simp
  show ?thesis
    using freed_handle_never_resolves [OF wf_session_state n f r, where env = env_grant
        and cs = "[Initialise None example_appInfo, Connect 1]"]
      wf_session_state n r
    by simp
qed

section \<open>Creating and connecting a session\<close>

text \<open>
  Claim C10. \<open>initialise\<close> mutates the caller's \<open>appInfo\<close> before the session is created:
  the field \<open>scope\<close> is overwritten whatever the caller put there, with the sender's URL
  when \<open>this\<close> and \<open>this.sender\<close> are present and with \<open>null\<close> otherwise; every other
  field is left as it was; the session created holds the mutated object.
\<close>

theorem initialise_overwrites_scope:
  "fst (initialise this s appInfo) ''scope'' =
     Some (case this of
             None \<Rightarrow> Null
           | Some t \<Rightarrow> (case sender t of None \<Rightarrow> Null | Some sd \<Rightarrow> Str (getURL sd)))
   \<and> (\<forall>k. k \<noteq> ''scope'' \<longrightarrow> fst (initialise this s appInfo) k = appInfo k)
   \<and> info (apps (fst (snd (initialise this s appInfo))) (next_addr s)) =
       fst (initialise this s appInfo)"
  by (simp add: initialise_def Let_def genHandle_def initializeApp_def
           split: option.splits)

theorem initialise_overwrites_scope_witness:
  "fst (initialise (Some \<lparr>sender = Some (Sender ''safe://site'')\<rparr>) init_state
          [''id'' \<mapsto> Str ''a.b'', ''scope'' \<mapsto> Str ''mine'']) ''scope''
     = Some (Str ''safe://site'')
   \<and> ''id'' \<noteq> ''scope''
   \<and> fst (initialise (Some \<lparr>sender = Some (Sender ''safe://site'')\<rparr>) init_state
          [''id'' \<mapsto> Str ''a.b'', ''scope'' \<mapsto> Str ''mine'']) ''id''
     = Some (Str ''a.b'')"
  using initialise_overwrites_scope
    [of "Some \<lparr>sender = Some (Sender ''safe://site'')\<rparr>" init_state
        "[''id'' \<mapsto> Str ''a.b'', ''scope'' \<mapsto> Str ''mine'']"]
  by simp

text \<open>
  Claim C6. For every \<open>appInfo\<close>, \<open>initialise\<close> resolves with a handle \<open>H1\<close> that was not
  in the table, without authenticating: no request is sent, the session is disconnected
  and not registered. A following \<open>connect H1\<close> resolves with the same \<open>H1\<close> and leaves
  the session connected and unregistered: \<open>isRegistered H1\<close> resolves with \<open>False\<close>.
\<close>

theorem initialise_then_connect:
  assumes "wf_registry s"
    and "initialise this s appInfo = (appInfo', s1, p)"
  shows "\<exists>H1. p = Resolved H1
           \<and> handles s H1 = None
           \<and> log s1 = log s
           \<and> snd (networkState s1 H1) = Resolved Disconnected
           \<and> snd (isRegistered s1 H1) = Resolved False
           \<and> snd (connect s1 H1) = Resolved H1
           \<and> snd (networkState (fst (connect s1 H1)) H1) = Resolved Connected
           \<and> snd (isRegistered (fst (connect s1 H1)) H1) = Resolved False"
proof -
  from assms(1) have fresh: "handles s (next_handle s) = None"
    by (auto simp: wf_registry_def)
  from assms(2) have p: "p = Resolved (next_handle s)"
    and s1: "handles s1 (next_handle s) = Some \<lparr>app = next_addr s, netObj = NoNetObj\<rparr>"
      "apps s1 (next_addr s) = initializeApp appInfo'" "log s1 = log s"
    by (auto simp: initialise_def Let_def genHandle_def)
  show ?thesis
    using fresh p s1
    by (simp add: networkState_def isRegistered_def connect_def getObj_def
          initializeApp_def registered_def connectUnregistered_def)
qed

theorem initialise_then_connect_witness:
  "wf_registry init_state
   \<and> initialise None init_state example_appInfo =
       (example_appInfo(''scope'' \<mapsto> Null), session_state, Resolved 0)
   \<and> snd (connect session_state 0) = Resolved 0
   \<and> snd (networkState (fst (connect session_state 0)) 0) = Resolved Connected
   \<and> snd (isRegistered (fst (connect session_state 0)) 0) = Resolved False"
proof -
  have i: "initialise None init_state example_appInfo =
             (example_appInfo(''scope'' \<mapsto> Null), session_state, Resolved 0)"
    by (simp add: session_state_def initialise_def Let_def genHandle_def init_state_def)
  show ?thesis
    using initialise_then_connect [OF wf_init_state i] wf_init_state i by simp
qed

section \<open>The authorisation exchange\<close>

text \<open>
  Claim C2. When the callback handed to the authenticator channel by \<open>authorise\<close> is
  invoked with an error (the handle resolves, the request is built and dispatched, the
  reply is an error), the promise is rejected with \<open>AuthorizationDenied\<close> and the session
  is left as it was: the table and the application objects are unchanged, and
  \<open>isRegistered\<close> and \<open>networkState\<close> answer as before.
\<close>

theorem authorise_denied:
  assumes "getObj s appToken = Inr ob"
    and "auth_genAuthUri env (apps s (app ob)) permissions opts = Inr authReq"
    and "ipc_sendAuthReq env authReq = Returns (Some (CbError err))"
  shows "snd (authorise env s appToken permissions opts) = Rejected AuthorizationDenied
       \<and> fst (authorise env s appToken permissions opts) =
           s\<lparr>log := log s @ [SendAuthReq authReq]\<rparr>
       \<and> handles (fst (authorise env s appToken permissions opts)) = handles s
       \<and> apps (fst (authorise env s appToken permissions opts)) = apps s
       \<and> snd (isRegistered (fst (authorise env s appToken permissions opts)) appToken) =
           snd (isRegistered s appToken)
       \<and> snd (networkState (fst (authorise env s appToken permissions opts)) appToken) =
           snd (networkState s appToken)"
  using assms
  by (simp add: authorise_def native_def isRegistered_def networkState_def getObj_def
           split: option.splits)

theorem authorise_denied_witness:
  "getObj session_state 0 = Inr \<lparr>app = 0, netObj = NoNetObj\<rparr>
   \<and> auth_genAuthUri env_deny (apps session_state 0) [(''_public'', [''Insert''])]
        \<lparr>own_container = True\<rparr> = Inr ''safe-auth://request''
   \<and> ipc_sendAuthReq env_deny ''safe-auth://request'' =
       Returns (Some (CbError ''denied by the user''))
   \<and> snd (authorise env_deny session_state 0 [(''_public'', [''Insert''])]
        \<lparr>own_container = True\<rparr>) = Rejected AuthorizationDenied
   \<and> snd (isRegistered (fst (authorise env_deny session_state 0 [(''_public'', [''Insert''])]
        \<lparr>own_container = True\<rparr>)) 0) = Resolved False"
proof -
  have g: "getObj session_state 0 = Inr \<lparr>app = 0, netObj = NoNetObj\<rparr>"
    by (simp add: getObj_def session_state_simps)
  have a: "auth_genAuthUri env_deny (apps session_state (app \<lparr>app = 0, netObj = NoNetObj\<rparr>))
             [(''_public'', [''Insert''])] \<lparr>own_container = True\<rparr> = Inr ''safe-auth://request''"
    by (simp add: env_deny_def env_grant_def)
  have i: "ipc_sendAuthReq env_deny ''safe-auth://request'' =
             Returns (Some (CbError ''denied by the user''))"
    by (simp add: env_deny_def env_grant_def)
  have r: "snd (isRegistered session_state 0) = Resolved False"
    by (simp add: isRegistered_def g registered_def session_state_simps)
  show ?thesis
    using authorise_denied [OF g a i] g a i r by auto
qed




text \<open>
  The URI matters: in the same environment a URI the authenticator did not grant is not
  redeemed, \<open>connectAuthorised\<close> is rejected and the session stays unregistered.
\<close>

lemma connectAuthorised_other_uri_rejected:
  "connectAuthorised env_grant session_state 0 ''safe-auth://forged'' =
     (session_state, Rejected (OperationFailed ''invalid URI''))
   \<and> snd (isRegistered session_state 0) = Resolved False"
  by (simp add: connectAuthorised_def loginFromURI_def native_def getObj_def
        isRegistered_def registered_def session_state_simps env_grant_def)

text \<open>
  Claim C4 as stated fails: on a valid session handle, when the native request builder
  rejects the permissions, \<open>authorise\<close> dispatches no request at all, and the promise is
  rejected without any callback having fired.
\<close>

theorem authorise_no_request_counterexample:
  "getObj session_state 0 = Inr \<lparr>app = 0, netObj = NoNetObj\<rparr>
   \<and> log (fst (authorise env_invalid session_state 0 [(''_public'', [''Insert''])]
          \<lparr>own_container = True\<rparr>)) = []
   \<and> snd (authorise env_invalid session_state 0 [(''_public'', [''Insert''])]
          \<lparr>own_container = True\<rparr>) = Rejected (OperationFailed ''invalid permissions'')"
  by (simp add: authorise_def getObj_def session_state_simps native_def env_invalid_def
        env_grant_def)

text \<open>
  Claim C4, amended. On a valid session handle, when the native request builder resolves,
  \<open>authorise\<close> hands exactly one request to the channel. If that dispatch itself fails,
  the promise is rejected with the dispatch error and no callback is involved. Otherwise
  only the callback of that dispatch settles the promise: it stays pending if the
  callback never fires, and settles as the callback's arguments say if it does. When the
  builder rejects, nothing is dispatched and the promise is rejected with the builder's
  error.
\<close>

theorem authorise_dispatches_once:
  assumes "getObj s appToken = Inr ob"
  shows "(\<forall>authReq. auth_genAuthUri env (apps s (app ob)) permissions opts = Inr authReq \<longrightarrow>
            log (fst (authorise env s appToken permissions opts)) = log s @ [SendAuthReq authReq]
            \<and> (\<forall>r. ipc_sendAuthReq env authReq = Throws r \<longrightarrow>
                 snd (authorise env s appToken permissions opts) = Rejected (DispatchFailed r))
            \<and> (ipc_sendAuthReq env authReq = Returns None \<longrightarrow>
                 snd (authorise env s appToken permissions opts) = Pending)
            \<and> (\<forall>args. ipc_sendAuthReq env authReq = Returns (Some args) \<longrightarrow>
                 snd (authorise env s appToken permissions opts) = auth_callback args
                 \<and> snd (authorise env s appToken permissions opts) \<noteq> Pending))
       \<and> (\<forall>r. auth_genAuthUri env (apps s (app ob)) permissions opts = Inl r \<longrightarrow>
            log (fst (authorise env s appToken permissions opts)) = log s
            \<and> snd (authorise env s appToken permissions opts) = Rejected (OperationFailed r))"
proof -
  have "auth_callback args \<noteq> Pending" for args
    by (cases args) simp_all
  with assms show ?thesis
    by (simp add: authorise_def native_def)
qed

theorem authorise_dispatches_once_witness:
  "getObj session_state 0 = Inr \<lparr>app = 0, netObj = NoNetObj\<rparr>
   \<and> log (fst (authorise env_silent session_state 0 [(''_public'', [''Insert''])]
          \<lparr>own_container = True\<rparr>)) = [SendAuthReq ''safe-auth://request'']
   \<and> snd (authorise env_silent session_state 0 [(''_public'', [''Insert''])]
          \<lparr>own_container = True\<rparr>) = Pending
   \<and> snd (authorise env_grant session_state 0 [(''_public'', [''Insert''])]
          \<lparr>own_container = True\<rparr>) = Resolved ''safe-auth://granted''
   \<and> log (fst (authorise env_unreachable session_state 0 [(''_public'', [''Insert''])]
          \<lparr>own_container = True\<rparr>)) = [SendAuthReq ''safe-auth://request'']
   \<and> snd (authorise env_unreachable session_state 0 [(''_public'', [''Insert''])]
          \<lparr>own_container = True\<rparr>) = Rejected (DispatchFailed ''no authenticator'')
   \<and> snd (authorise env_invalid session_state 0 [(''_public'', [''Insert''])]
          \<lparr>own_container = True\<rparr>) = Rejected (OperationFailed ''invalid permissions'')"
proof -
  have g: "getObj session_state 0 = Inr \<lparr>app = 0, netObj = NoNetObj\<rparr>"
    by (simp add: getObj_def session_state_simps)
  show ?thesis
    using g
      authorise_dispatches_once [OF g, of env_silent "[(''_public'', [''Insert''])]"
        "\<lparr>own_container = True\<rparr>"]
      authorise_dispatches_once [OF g, of env_grant "[(''_public'', [''Insert''])]"
        "\<lparr>own_container = True\<rparr>"]
      authorise_dispatches_once [OF g, of env_unreachable "[(''_public'', [''Insert''])]"
        "\<lparr>own_container = True\<rparr>"]
      authorise_dispatches_once [OF g, of env_invalid "[(''_public'', [''Insert''])]"
        "\<lparr>own_container = True\<rparr>"]
    by (simp add: env_silent_def env_grant_def env_unreachable_def env_invalid_def
          session_state_simps)
qed

text \<open>
  Claim C8. \<open>authoriseContainer\<close> is \<open>authorise\<close> with the request built by
  \<open>genContainerAuthUri\<close> from the permissions alone: for any options, the two calls agree
  on the state they leave, the request they dispatch and the way the promise settles.
\<close>

theorem authoriseContainer_is_authorise:
  "authoriseContainer env s appToken permissions =
   authorise (env\<lparr>auth_genAuthUri := \<lambda>a p opts. auth_genContainerAuthUri env a p\<rparr>)
     s appToken permissions opts"
  by (simp add: authoriseContainer_def authorise_def split: sum.splits)

section \<open>Fetching and querying\<close>

text \<open>Whatever the handle and the URL, \<open>webFetch\<close> never resolves.\<close>

lemma webFetch_never_resolves: "snd (webFetch env s appToken url) \<noteq> Resolved b"
  by (simp add: webFetch_def split: sum.splits)

text \<open>
  Claim C7. \<open>webFetch\<close> on a valid session handle should resolve with the content of the
  file found for the URL. On the code it does not: with a valid handle and a native
  lookup that resolves, the promise is rejected with \<open>ReferenceError\<close>.
\<close>

theorem webFetch_rejects:
  "getObj session_state 0 = Inr \<lparr>app = 0, netObj = NoNetObj\<rparr>
   \<and> app_webFetch env_grant (apps session_state 0) ''safe://site/index.html'' = Inr 7
   \<and> webFetch env_grant session_state 0 ''safe://site/index.html'' =
       (session_state, Rejected ReferenceError)"
  by (simp add: webFetch_def getObj_def session_state_simps native_def env_grant_def)

text \<open>
  Claim C5 as stated fails: on an unknown handle \<open>isRegistered\<close> is rejected with
  \<open>UnknownHandle\<close>, not \<open>InvalidSession\<close>; on a session that is not yet connected,
  \<open>isRegistered\<close> and \<open>networkState\<close> do not fail but resolve.
\<close>

theorem query_errors_counterexample:
  "getObj init_state 0 = Inl UnknownHandle
   \<and> snd (isRegistered init_state 0) = Rejected UnknownHandle
   \<and> snd (isRegistered init_state 0) \<noteq> Rejected InvalidSession
   \<and> conn (apps session_state 0) = Disconnected
   \<and> snd (isRegistered session_state 0) = Resolved False
   \<and> snd (networkState session_state 0) = Resolved Disconnected"
  by (simp add: isRegistered_def networkState_def getObj_def init_state_def
        session_state_simps registered_def)

text \<open>
  Claim C5, amended. The queries \<open>isRegistered\<close>, \<open>networkState\<close>, \<open>canAccessContainer\<close>
  and \<open>getContainersNames\<close> leave the state as it is. On an unknown handle each fails
  with \<open>UnknownHandle\<close>. On a known handle \<open>isRegistered\<close> and \<open>networkState\<close> resolve with
  the session's registered flag and connection state, connected or not, while
  \<open>canAccessContainer\<close> and \<open>getContainersNames\<close> make no check of their own: they
  resolve with what the library's call answers and fail only when that call rejects,
  with its error.
\<close>

theorem queries_are_reads:
  "fst (isRegistered s h) = s
   \<and> fst (networkState s h) = s
   \<and> fst (canAccessContainer env s h name permissions) = s
   \<and> fst (getContainersNames env s h) = s
   \<and> (getObj s h = Inl UnknownHandle \<longrightarrow>
        snd (isRegistered s h) = Rejected UnknownHandle
        \<and> snd (networkState s h) = Rejected UnknownHandle
        \<and> snd (canAccessContainer env s h name permissions) = Rejected UnknownHandle
        \<and> snd (getContainersNames env s h) = Rejected UnknownHandle)
   \<and> (\<forall>ob. getObj s h = Inr ob \<longrightarrow>
        snd (isRegistered s h) = Resolved (registered (apps s (app ob)))
        \<and> snd (networkState s h) = Resolved (conn (apps s (app ob)))
        \<and> snd (canAccessContainer env s h name permissions) =
            (case auth_canAccessContainer env (apps s (app ob)) name permissions of
               Inl r \<Rightarrow> Rejected (OperationFailed r)
             | Inr b \<Rightarrow> Resolved b)
        \<and> snd (getContainersNames env s h) =
            (case auth_getContainersNames env (apps s (app ob)) of
               Inl r \<Rightarrow> Rejected (OperationFailed r)
             | Inr ns \<Rightarrow> Resolved ns))"
  by (simp add: isRegistered_def networkState_def canAccessContainer_def
        getContainersNames_def native_def settle_def split: sum.splits)

theorem queries_are_reads_witness:
  "getObj init_state 0 = Inl UnknownHandle
   \<and> snd (canAccessContainer env_grant init_state 0 ''_public'' [''Read'']) =
       Rejected UnknownHandle
   \<and> getObj session_state 0 = Inr \<lparr>app = 0, netObj = NoNetObj\<rparr>
   \<and> snd (isRegistered session_state 0) = Resolved False
   \<and> snd (networkState session_state 0) = Resolved Disconnected
   \<and> snd (getContainersNames env_grant session_state 0) = Resolved [''_public'']"
proof -
  have u: "getObj init_state 0 = Inl UnknownHandle"
    by (simp add: getObj_def init_state_def)
  have g: "getObj session_state 0 = Inr \<lparr>app = 0, netObj = NoNetObj\<rparr>"
    by (simp add: getObj_def session_state_simps)
  show ?thesis
    using u g
      queries_are_reads [of init_state 0 env_grant "''_public''" "[''Read'']"]
      queries_are_reads [of session_state 0 env_grant "''_public''" "[''Read'']"]
    by (simp add: registered_def session_state_simps env_grant_def)
qed

section \<open>The signing key adapter\<close>

text \<open>
  Claim C9. \<open>getRaw\<close> and \<open>verify\<close> first resolve the handle. When resolution fails, the
  operation fails with \<open>InvalidHandle\<close> and the state, with its trace of native calls, is
  unchanged: the native operation is not invoked. When the handle resolves to a signing
  key, the native operation is invoked once on that key and the promise resolves with its
  result, or is rejected with \<open>OperationFailed\<close> when the native call rejects.
\<close>

theorem key_adapter_resolves_first:
  "(\<forall>e. getObj s h = Inl e \<longrightarrow>
      getRaw env s h = (s, Rejected InvalidHandle)
      \<and> verify env s h d = (s, Rejected InvalidHandle))
   \<and> (\<forall>ob k. getObj s h = Inr ob \<and> netObj ob = PubSignKey k \<longrightarrow>
        fst (getRaw env s h) = s\<lparr>log := log s @ [KeyGetRaw k]\<rparr>
        \<and> snd (getRaw env s h) =
            (case netObj_getRaw env k of
               Inl r \<Rightarrow> Rejected (OperationFailed r)
             | Inr v \<Rightarrow> Resolved v)
        \<and> fst (verify env s h d) = s\<lparr>log := log s @ [KeyVerify k d]\<rparr>
        \<and> snd (verify env s h d) =
            (case netObj_verify env k d of
               Inl r \<Rightarrow> Rejected (OperationFailed r)
             | Inr v \<Rightarrow> Resolved v))"
  by (auto simp: getRaw_def verify_def getObj_def native_def settle_def
        split: option.splits sum.splits)

theorem key_adapter_resolves_first_witness:
  "getObj key_state 2 = Inl UnknownHandle
   \<and> getRaw env_grant key_state 2 = (key_state, Rejected InvalidHandle)
   \<and> getObj key_state 1 = Inr \<lparr>app = 0, netObj = PubSignKey 5\<rparr>
   \<and> snd (getRaw env_grant key_state 1) = Resolved [1, 2, 3]
   \<and> log (fst (verify env_grant key_state 1 [])) = [KeyVerify 5 []]
   \<and> snd (verify env_grant key_state 1 []) = Rejected (OperationFailed ''invalid signature'')"
proof -
  have u: "getObj key_state 2 = Inl UnknownHandle"
    by (simp add: getObj_def key_state_simps)
  have g: "getObj key_state 1 = Inr \<lparr>app = 0, netObj = PubSignKey 5\<rparr>"
    by (simp add: getObj_def key_state_simps)
  show ?thesis
    using u g
      key_adapter_resolves_first [of key_state 2 env_grant "[]"]
      key_adapter_resolves_first [of key_state 1 env_grant "[]"]
    by (simp add: env_grant_def key_state_simps)
qed

end
